theory Spec2Isabelle
  imports Main "HOL-Library.Sublist"
begin

section \<open>Data model\<close>

text \<open>
  Modelled from the spec: the \<^verbatim>\<open>Note\<close> entity (\<^verbatim>\<open>entities/note.entity.ts\<close> is
  imported by both services and is not among the sources). The spec gives it a
  store-assigned \<^verbatim>\<open>id\<close>, a \<^verbatim>\<open>title\<close> and further text content. The id type is a
  parameter: \<^verbatim>\<open>string\<close> in \<^verbatim>\<open>src/modules/notes\<close>, \<^verbatim>\<open>number\<close> in \<^verbatim>\<open>src/notes\<close>.
  A column that holds no value (SQL NULL, JavaScript \<^verbatim>\<open>undefined\<close>) is \<open>None\<close>.
  The field \<^verbatim>\<open>id\<close> is written \<open>note_id\<close>, as \<open>id\<close> is the identity function of HOL.
\<close>

record 'i Note =
  note_id :: 'i
  title :: "string option"
  content :: "string option"

text \<open>
  \<^verbatim>\<open>Partial<Note>\<close> (\<^verbatim>\<open>src/notes\<close>) and the request bodies \<^verbatim>\<open>CreateNoteDto\<close> and
  \<^verbatim>\<open>UpdateNoteDto\<close> (\<^verbatim>\<open>src/modules/notes\<close>; the two classes are not among the
  sources, and \<^verbatim>\<open>bootstrap\<close> installs no validation pipe, so the body reaches the
  service as it was sent): every key may be absent (\<open>None\<close>) or present with a value.
\<close>

record 'i partial_note =
  p_id :: "'i option"
  p_title :: "string option"
  p_content :: "string option"

text \<open>\<^verbatim>\<open>FilterNoteDto\<close>: one optional string, \<^verbatim>\<open>title?: string\<close>.\<close>

record filter_note_dto =
  f_title :: "string option"

text \<open>
  What a promise can reject with. \<^verbatim>\<open>NotFoundException(message)\<close> is the one
  exception the services raise themselves. The other two come out of
  \<^verbatim>\<open>repository.update\<close> and pass through the service that calls it:
  \<^verbatim>\<open>UpdateValuesMissingError\<close> when the payload sets no column, and
  \<^verbatim>\<open>QueryFailedError\<close> when the store refuses the statement because two rows would
  carry one id.
\<close>

datatype error = NotFoundException string | UpdateValuesMissingError | QueryFailedError

text \<open>
  A \<^verbatim>\<open>Promise<T>\<close> settles as rejected with an error (\<open>Inl\<close>) or resolved with a
  value (\<open>Inr\<close>).
\<close>

type_synonym 'a promise = "error + 'a"

fun is_NotFound :: "'a promise \<Rightarrow> bool" where
  "is_NotFound (Inl (NotFoundException m)) = True"
| "is_NotFound (Inl UpdateValuesMissingError) = False"
| "is_NotFound (Inl QueryFailedError) = False"
| "is_NotFound (Inr v) = False"

section \<open>The repository\<close>

text \<open>
  Modelled from the spec: the ORM repository \<^verbatim>\<open>Repository<Note>\<close> is an external
  collaborator (section 4.1 of the spec: find all, find by id, insert, update by id,
  delete by id). The table is the list of its rows in insertion order; the id is its
  primary key. The store configured in \<^verbatim>\<open>databaseConfig\<close> is SQLite. A lost
  connection is outside the model, as it is outside the services.
\<close>

type_synonym 'i table = "'i Note list"

text \<open>
  \<^verbatim>\<open>Object.assign(note, dto)\<close>, and the \<^verbatim>\<open>SET\<close> clause of an SQL update: every key
  present in the payload overwrites the field, every other field stays.
\<close>

definition assign :: "'i Note \<Rightarrow> 'i partial_note \<Rightarrow> 'i Note" where
  "assign n u =
     \<lparr> note_id = (case p_id u of None \<Rightarrow> note_id n | Some j \<Rightarrow> j),
       title = (case p_title u of None \<Rightarrow> title n | Some t \<Rightarrow> Some t),
       content = (case p_content u of None \<Rightarrow> content n | Some c \<Rightarrow> Some c) \<rparr>"

text \<open>
  An entity instance, as \<^verbatim>\<open>repository.save\<close> takes it: a key is absent
  (\<^verbatim>\<open>undefined\<close>, \<open>None\<close>), or present with \<^verbatim>\<open>null\<close> (\<open>Some None\<close>) or with
  a string.
\<close>

record 'i entity =
  e_id :: "'i option"
  e_title :: "string option option"
  e_content :: "string option option"

text \<open>
  A loaded entity handed back to \<^verbatim>\<open>save\<close>: every column is a key of it, a NULL
  column with the value \<^verbatim>\<open>null\<close>.
\<close>

definition entity_of :: "'i Note \<Rightarrow> 'i entity" where
  "entity_of n = \<lparr> e_id = Some (note_id n), e_title = Some (title n), e_content = Some (content n) \<rparr>"

text \<open>The row an entity is inserted as: a column the entity has no key for is NULL.\<close>

definition row_of :: "'i \<Rightarrow> 'i entity \<Rightarrow> 'i Note" where
  "row_of i e =
     \<lparr> note_id = i,
       title = (case e_title e of None \<Rightarrow> None | Some v \<Rightarrow> v),
       content = (case e_content e of None \<Rightarrow> None | Some v \<Rightarrow> v) \<rparr>"

text \<open>The row after an entity is saved over it: the entity's keys are written, NULL too.\<close>

definition overwrite :: "'i Note \<Rightarrow> 'i entity \<Rightarrow> 'i Note" where
  "overwrite r e =
     \<lparr> note_id = note_id r,
       title = (case e_title e of None \<Rightarrow> title r | Some v \<Rightarrow> v),
       content = (case e_content e of None \<Rightarrow> content r | Some v \<Rightarrow> v) \<rparr>"

text \<open>
  \<^verbatim>\<open>repository.create(dto)\<close> builds an entity instance with the keys of the payload
  and touches no row.
\<close>

definition repo_create :: "'i partial_note \<Rightarrow> 'i entity" where
  "repo_create dto =
     \<lparr> e_id = p_id dto,
       e_title = map_option Some (p_title dto),
       e_content = map_option Some (p_content dto) \<rparr>"

text \<open>
  \<^verbatim>\<open>repository.save(entity)\<close>: an entity without id is inserted under the id the
  store generates (\<open>gen\<close>, the store's generator: auto-increment or a generated
  string); an entity whose id is in the table is written over that row, key by key; an
  entity whose id is not in the table is inserted under that id. The entity, with its
  id, is what \<^verbatim>\<open>save\<close> returns.
\<close>

definition repo_save ::
  "('i table \<Rightarrow> 'i) \<Rightarrow> 'i table \<Rightarrow> 'i entity \<Rightarrow> 'i Note \<times> 'i table" where
  "repo_save gen tbl e =
     (case e_id e of
        None \<Rightarrow> (row_of (gen tbl) e, tbl @ [row_of (gen tbl) e])
      | Some i \<Rightarrow>
          if i \<in> set (map note_id tbl)
          then (row_of i e, map (\<lambda>r. if note_id r = i then overwrite r e else r) tbl)
          else (row_of i e, tbl @ [row_of i e]))"

text \<open>\<^verbatim>\<open>repository.find()\<close>: every row.\<close>

definition repo_find :: "'i table \<Rightarrow> 'i Note list" where
  "repo_find tbl = tbl"

text \<open>
  \<^verbatim>\<open>repository.findOneBy({ id })\<close> and \<^verbatim>\<open>repository.findOne({ where: { id } })\<close>:
  the first row with that id, or \<^verbatim>\<open>null\<close>.
\<close>

definition repo_findOneBy :: "'i table \<Rightarrow> 'i \<Rightarrow> 'i Note option" where
  "repo_findOneBy tbl i = find (\<lambda>r. note_id r = i) tbl"

definition repo_findOne :: "'i table \<Rightarrow> 'i \<Rightarrow> 'i Note option" where
  "repo_findOne tbl i = find (\<lambda>r. note_id r = i) tbl"

text \<open>
  \<^verbatim>\<open>repository.update(id, partial)\<close>. A payload with no key leaves nothing to set:
  the call rejects with \<^verbatim>\<open>UpdateValuesMissingError\<close>, whatever the table holds.
  Otherwise the statement sets the present columns on the rows with that id. The id
  is a column like the others; when the payload moves a row to an id that another row
  carries, the store refuses the statement and the call rejects with
  \<^verbatim>\<open>QueryFailedError\<close>. A rejected call writes nothing.
\<close>

definition no_keys :: "'i partial_note \<Rightarrow> bool" where
  "no_keys u = (p_id u = None \<and> p_title u = None \<and> p_content u = None)"

definition id_collision :: "'i table \<Rightarrow> 'i \<Rightarrow> 'i partial_note \<Rightarrow> bool" where
  "id_collision tbl i u =
     (case p_id u of
        None \<Rightarrow> False
      | Some k \<Rightarrow> k \<noteq> i \<and> i \<in> set (map note_id tbl) \<and> k \<in> set (map note_id tbl))"

definition repo_update :: "'i table \<Rightarrow> 'i \<Rightarrow> 'i partial_note \<Rightarrow> error + 'i table" where
  "repo_update tbl i u =
     (if no_keys u then Inl UpdateValuesMissingError
      else if id_collision tbl i u then Inl QueryFailedError
      else Inr (map (\<lambda>r. if note_id r = i then assign r u else r) tbl))"

text \<open>\<^verbatim>\<open>repository.delete(id)\<close>: deletes the rows with that id; none is no error.\<close>

definition repo_delete :: "'i table \<Rightarrow> 'i \<Rightarrow> 'i table" where
  "repo_delete tbl i = filter (\<lambda>r. note_id r \<noteq> i) tbl"

text \<open>\<^verbatim>\<open>repository.remove(note)\<close>: deletes the row of that entity, by its id.\<close>

definition repo_remove :: "'i table \<Rightarrow> 'i Note \<Rightarrow> 'i table" where
  "repo_remove tbl n = filter (\<lambda>r. note_id r \<noteq> note_id n) tbl"

subsection \<open>The query builder\<close>

text \<open>
  Modelled from the spec: SQL \<^verbatim>\<open>LIKE\<close>, which the store evaluates, as SQLite
  does. In a pattern \<^verbatim>\<open>%\<close> stands for any run of characters and \<^verbatim>\<open>_\<close> for any
  one character; every other character stands for itself, the ASCII letters without
  regard to case. A \<open>char\<close> of the model is one character of the text.
\<close>

definition ascii_lower :: "char \<Rightarrow> char" where
  "ascii_lower c =
     (let n = (of_char c :: nat) in if 65 \<le> n \<and> n \<le> 90 then char_of (n + 32) else c)"

fun like :: "string \<Rightarrow> string \<Rightarrow> bool" where
  "like [] s = (s = [])"
| "like (p # ps) [] = (p = CHR ''%'' \<and> like ps [])"
| "like (p # ps) (c # cs) =
     (if p = CHR ''%'' then like ps (c # cs) \<or> like (p # ps) cs
      else (p = CHR ''_'' \<or> ascii_lower p = ascii_lower c) \<and> like ps cs)"

text \<open>
  A query on the notes table is the list of the patterns its \<^verbatim>\<open>WHERE\<close> clause asks
  \<^verbatim>\<open>note.title\<close> to be \<^verbatim>\<open>LIKE\<close>. \<^verbatim>\<open>createQueryBuilder('note')\<close> has none,
  \<^verbatim>\<open>andWhere('note.title LIKE :title', {title: pat})\<close> adds one, \<^verbatim>\<open>getMany()\<close>
  returns the rows that satisfy all of them. A NULL title is \<^verbatim>\<open>LIKE\<close> nothing.
\<close>

type_synonym query = "string list"

definition createQueryBuilder :: query where
  "createQueryBuilder = []"

definition andWhere_title_LIKE :: "query \<Rightarrow> string \<Rightarrow> query" where
  "andWhere_title_LIKE q pat = q @ [pat]"

definition title_like :: "string \<Rightarrow> 'i Note \<Rightarrow> bool" where
  "title_like pat r = (case title r of None \<Rightarrow> False | Some s \<Rightarrow> like pat s)"

definition getMany :: "'i table \<Rightarrow> query \<Rightarrow> 'i Note list" where
  "getMany tbl q = filter (\<lambda>r. list_all (\<lambda>pat. title_like pat r) q) tbl"

section \<open>\<^verbatim>\<open>NotesService\<close> of \<^verbatim>\<open>src/modules/notes\<close> (string ids, existence checks)\<close>

text \<open>
  Every operation takes the table and, where it writes, returns the table after it
  beside the promise's outcome. Names carry \<open>svcM_\<close> for this service and \<open>svcN_\<close>
  for the one of \<^verbatim>\<open>src/notes\<close>, as both classes are called \<^verbatim>\<open>NotesService\<close>.
\<close>

text \<open>
  \<^verbatim>\<open>create\<close> (lines 62-65):
  \<^verbatim>\<open>const note = this.notesRepository.create(createNoteDto); return this.notesRepository.save(note);\<close>
\<close>

definition svcM_create ::
  "(string table \<Rightarrow> string) \<Rightarrow> string table \<Rightarrow> string partial_note
     \<Rightarrow> string Note promise \<times> string table" where
  "svcM_create gen tbl createNoteDto =
     (let note = repo_create createNoteDto;
          (saved, tbl') = repo_save gen tbl note
      in (Inr saved, tbl'))"

text \<open>
  \<^verbatim>\<open>findAll\<close> (lines 67-73): the query builder gets the condition
  \<^verbatim>\<open>note.title LIKE :title\<close>, with \<^verbatim>\<open>:title\<close> bound to the title between two
  \<^verbatim>\<open>%\<close>, under \<^verbatim>\<open>if (filterNoteDto.title)\<close>: a string is truthy when it is defined
  and not empty.
\<close>

definition svcM_findAll :: "string table \<Rightarrow> filter_note_dto \<Rightarrow> string Note list promise" where
  "svcM_findAll tbl filterNoteDto =
     (let query = createQueryBuilder;
          query = (case f_title filterNoteDto of
                     None \<Rightarrow> query
                   | Some t \<Rightarrow>
                       if t \<noteq> [] then andWhere_title_LIKE query (''%'' @ t @ ''%'')
                       else query)
      in Inr (getMany tbl query))"

text \<open>
  \<^verbatim>\<open>findOne\<close> (lines 75-81): \<^verbatim>\<open>findOneBy({ id })\<close>, and on \<^verbatim>\<open>null\<close> the exception
  with the message that quotes the id between double quotes (\<open>CHR 0x22\<close>).
\<close>

definition not_found_message :: "string \<Rightarrow> string" where
  "not_found_message i = ''Note with ID '' @ [CHR 0x22] @ i @ [CHR 0x22] @ '' not found.''"

definition svcM_findOne :: "string table \<Rightarrow> string \<Rightarrow> string Note promise" where
  "svcM_findOne tbl i =
     (case repo_findOneBy tbl i of
        None \<Rightarrow> Inl (NotFoundException (not_found_message i))
      | Some note \<Rightarrow> Inr note)"

text \<open>
  \<^verbatim>\<open>update\<close> (lines 83-87):
  \<^verbatim>\<open>const note = await this.findOne(id); Object.assign(note, updateNoteDto); return this.notesRepository.save(note);\<close>
  A rejection of \<^verbatim>\<open>findOne\<close> ends the call there, with the table as it was.
\<close>

definition svcM_update ::
  "(string table \<Rightarrow> string) \<Rightarrow> string table \<Rightarrow> string \<Rightarrow> string partial_note
     \<Rightarrow> string Note promise \<times> string table" where
  "svcM_update gen tbl i updateNoteDto =
     (case svcM_findOne tbl i of
        Inl e \<Rightarrow> (Inl e, tbl)
      | Inr note \<Rightarrow>
          (let note' = assign note updateNoteDto;
               (saved, tbl') = repo_save gen tbl (entity_of note')
           in (Inr saved, tbl')))"

text \<open>
  \<^verbatim>\<open>remove\<close> (lines 89-92):
  \<^verbatim>\<open>const note = await this.findOne(id); await this.notesRepository.remove(note);\<close>
\<close>

definition svcM_remove :: "string table \<Rightarrow> string \<Rightarrow> unit promise \<times> string table" where
  "svcM_remove tbl i =
     (case svcM_findOne tbl i of
        Inl e \<Rightarrow> (Inl e, tbl)
      | Inr note \<Rightarrow> (Inr (), repo_remove tbl note))"

section \<open>\<^verbatim>\<open>NotesService\<close> of \<^verbatim>\<open>src/notes\<close> (numeric ids, no existence check)\<close>

text \<open>
  The ids of this service are JavaScript numbers. The service compares them and does
  nothing else with them, so their type is left open (\<open>'i\<close>).

  \<^verbatim>\<open>findAll\<close>: \<^verbatim>\<open>return this.notesRepository.find();\<close>
  \<^verbatim>\<open>findOne\<close>: \<^verbatim>\<open>return this.notesRepository.findOne({ where: { id } });\<close> The
  declared result is \<^verbatim>\<open>Promise<Note>\<close>; what the repository returns for no row is
  \<^verbatim>\<open>null\<close>, so the result is an option.
\<close>

definition svcN_findAll :: "'i table \<Rightarrow> 'i Note list promise" where
  "svcN_findAll tbl = Inr (repo_find tbl)"

definition svcN_findOne :: "'i table \<Rightarrow> 'i \<Rightarrow> 'i Note option promise" where
  "svcN_findOne tbl i = Inr (repo_findOne tbl i)"

text \<open>
  \<^verbatim>\<open>create\<close>:
  \<^verbatim>\<open>const newNote = this.notesRepository.create(note); return this.notesRepository.save(newNote);\<close>
\<close>

definition svcN_create ::
  "('i table \<Rightarrow> 'i) \<Rightarrow> 'i table \<Rightarrow> 'i partial_note \<Rightarrow> 'i Note promise \<times> 'i table" where
  "svcN_create gen tbl note =
     (let newNote = repo_create note;
          (saved, tbl') = repo_save gen tbl newNote
      in (Inr saved, tbl'))"

text \<open>
  \<^verbatim>\<open>update\<close>: \<^verbatim>\<open>await this.notesRepository.update(id, note); return this.findOne(id);\<close>
  A rejection of the awaited \<^verbatim>\<open>update\<close> is the rejection of the call.
\<close>

definition svcN_update ::
  "'i table \<Rightarrow> 'i \<Rightarrow> 'i partial_note \<Rightarrow> 'i Note option promise \<times> 'i table" where
  "svcN_update tbl i note =
     (case repo_update tbl i note of
        Inl e \<Rightarrow> (Inl e, tbl)
      | Inr tbl' \<Rightarrow> (svcN_findOne tbl' i, tbl'))"

text \<open>\<^verbatim>\<open>remove\<close>: \<^verbatim>\<open>await this.notesRepository.delete(id);\<close>\<close>

definition svcN_remove :: "'i table \<Rightarrow> 'i \<Rightarrow> unit promise \<times> 'i table" where
  "svcN_remove tbl i = (Inr (), repo_delete tbl i)"

section \<open>The controllers\<close>

text \<open>
  \<^verbatim>\<open>NotesController\<close> of \<^verbatim>\<open>src/modules/notes\<close> (\<open>ctlM_\<close>): the path parameter
  is passed on as the string it is.
\<close>

definition ctlM_create ::
  "(string table \<Rightarrow> string) \<Rightarrow> string table \<Rightarrow> string partial_note
     \<Rightarrow> string Note promise \<times> string table" where
  "ctlM_create gen tbl createNoteDto = svcM_create gen tbl createNoteDto"

definition ctlM_findAll :: "string table \<Rightarrow> filter_note_dto \<Rightarrow> string Note list promise" where
  "ctlM_findAll tbl filterNoteDto = svcM_findAll tbl filterNoteDto"

definition ctlM_findOne :: "string table \<Rightarrow> string \<Rightarrow> string Note promise" where
  "ctlM_findOne tbl s = svcM_findOne tbl s"

definition ctlM_update ::
  "(string table \<Rightarrow> string) \<Rightarrow> string table \<Rightarrow> string \<Rightarrow> string partial_note
     \<Rightarrow> string Note promise \<times> string table" where
  "ctlM_update gen tbl s updateNoteDto = svcM_update gen tbl s updateNoteDto"

definition ctlM_remove :: "string table \<Rightarrow> string \<Rightarrow> unit promise \<times> string table" where
  "ctlM_remove tbl s = svcM_remove tbl s"

text \<open>
  \<^verbatim>\<open>NotesController\<close> of \<^verbatim>\<open>src/notes\<close> (\<open>ctlN_\<close>): the path parameter is coerced
  with JavaScript's unary plus, \<^verbatim>\<open>+id\<close>. The coercion is the language's, not the
  repository's: it is the parameter \<open>num\<close>.
\<close>

definition ctlN_findAll :: "'i table \<Rightarrow> 'i Note list promise" where
  "ctlN_findAll tbl = svcN_findAll tbl"

definition ctlN_findOne :: "(string \<Rightarrow> 'i) \<Rightarrow> 'i table \<Rightarrow> string \<Rightarrow> 'i Note option promise" where
  "ctlN_findOne num tbl s = svcN_findOne tbl (num s)"

definition ctlN_create ::
  "('i table \<Rightarrow> 'i) \<Rightarrow> 'i table \<Rightarrow> 'i partial_note \<Rightarrow> 'i Note promise \<times> 'i table" where
  "ctlN_create gen tbl note = svcN_create gen tbl note"

definition ctlN_update ::
  "(string \<Rightarrow> 'i) \<Rightarrow> 'i table \<Rightarrow> string \<Rightarrow> 'i partial_note
     \<Rightarrow> 'i Note option promise \<times> 'i table" where
  "ctlN_update num tbl s note = svcN_update tbl (num s) note"

definition ctlN_remove :: "(string \<Rightarrow> 'i) \<Rightarrow> 'i table \<Rightarrow> string \<Rightarrow> unit promise \<times> 'i table" where
  "ctlN_remove num tbl s = svcN_remove tbl (num s)"

section \<open>What the spec's sentences say, as predicates\<close>

text \<open>
  ``A Note whose fields present in \<open>u\<close> equal \<open>u\<close>'s values and whose other fields
  equal \<open>n\<close>'s prior values'': \<open>n'\<close> is the merge of \<open>u\<close> over \<open>n\<close>.
\<close>

definition merged :: "'i Note \<Rightarrow> 'i partial_note \<Rightarrow> 'i Note \<Rightarrow> bool" where
  "merged n u n' =
     ((case p_id u of None \<Rightarrow> note_id n' = note_id n | Some j \<Rightarrow> note_id n' = j)
      \<and> (case p_title u of None \<Rightarrow> title n' = title n | Some t \<Rightarrow> title n' = Some t)
      \<and> (case p_content u of None \<Rightarrow> content n' = content n | Some c \<Rightarrow> content n' = Some c))"


section \<open>Looking a row up by id\<close>

lemma find_absent:
  "i \<notin> set (map note_id tbl) \<Longrightarrow> find (\<lambda>r. note_id r = i) tbl = None"
  by (induction tbl) auto

lemma find_present:
  "distinct (map note_id tbl) \<Longrightarrow> n \<in> set tbl
   \<Longrightarrow> find (\<lambda>r. note_id r = note_id n) tbl = Some n"
  by (induction tbl) auto

lemma find_member:
  "m \<in> set tbl
   \<Longrightarrow> \<exists>m'. find (\<lambda>r. note_id r = note_id m) tbl = Some m' \<and> note_id m' = note_id m"
  by (induction tbl) auto

lemma find_after_delete:
  "find (\<lambda>r. note_id r = i) (filter (\<lambda>r. note_id r \<noteq> i) tbl) = None"
  by (induction tbl) auto

lemma find_appended:
  "i \<notin> set (map note_id tbl)
   \<Longrightarrow> find (\<lambda>r. note_id r = i) (tbl @ [r]) = (if note_id r = i then Some r else None)"
  by (induction tbl) auto

lemma find_after_update:
  "p_id v = None \<or> p_id v = Some i \<Longrightarrow>
   find (\<lambda>r. note_id r = i) (map (\<lambda>r. if note_id r = i then assign r v else r) tbl)
     = map_option (\<lambda>r. assign r v) (find (\<lambda>r. note_id r = i) tbl)"
  by (induction tbl) (auto simp: assign_def)

lemma ids_after_update:
  "p_id v = None \<or> p_id v = Some i \<Longrightarrow>
   map note_id (map (\<lambda>r. if note_id r = i then assign r v else r) tbl) = map note_id tbl"
  by (induction tbl) (auto simp: assign_def)

lemma assign_merged: "merged n u (assign n u)"
  by (simp add: merged_def assign_def split: option.splits)

lemma ids_after_overwrite:
  "map note_id (map (\<lambda>r. if note_id r = i then overwrite r e else r) tbl) = map note_id tbl"
  by (induction tbl) (auto simp: overwrite_def)

lemma row_of_entity: "row_of (note_id n) (entity_of n) = n"
  by (simp add: row_of_def entity_of_def)

lemma save_entity_returns: "fst (repo_save gen tbl (entity_of n)) = n"
  by (simp add: repo_save_def entity_of_def row_of_def)

lemma repo_update_sets:
  "\<not> no_keys v \<Longrightarrow> p_id v = None \<or> p_id v = Some i
   \<Longrightarrow> repo_update tbl i v = Inr (map (\<lambda>r. if note_id r = i then assign r v else r) tbl)"
  by (auto simp: repo_update_def id_collision_def)

lemma repo_update_absent:
  assumes "i \<notin> set (map note_id tbl)"
  shows "repo_update tbl i v = (if no_keys v then Inl UpdateValuesMissingError else Inr tbl)"
proof -
  have "map (\<lambda>r. if note_id r = i then assign r v else r) tbl = tbl"
    using assms by (induction tbl) auto
  then show ?thesis
    using assms by (simp add: repo_update_def id_collision_def split: option.splits)
qed

section \<open>\<^verbatim>\<open>LIKE\<close> and substrings\<close>





section \<open>Ids that are not in the table\<close>

text \<open>
  C1, as the code has it. For an id that no row carries, \<^verbatim>\<open>findOne\<close>, \<^verbatim>\<open>update\<close> and
  \<^verbatim>\<open>remove\<close> of the service of \<^verbatim>\<open>src/modules/notes\<close> each reject with
  \<^verbatim>\<open>NotFoundException\<close>. The service of \<^verbatim>\<open>src/notes\<close> has no such error: its
  \<^verbatim>\<open>findOne\<close> resolves to \<^verbatim>\<open>null\<close>, its \<^verbatim>\<open>remove\<close> resolves to void, and its
  \<^verbatim>\<open>update\<close> resolves to \<^verbatim>\<open>null\<close> for a payload with a key and rejects with the
  repository's \<^verbatim>\<open>UpdateValuesMissingError\<close> for the payload with none.
\<close>

theorem absent_id:
  assumes "i \<notin> set (map note_id tblM)" and "j \<notin> set (map note_id tblN)"
  shows "is_NotFound (svcM_findOne tblM i)
       \<and> is_NotFound (fst (svcM_update gen tblM i u))
       \<and> is_NotFound (fst (svcM_remove tblM i))
       \<and> svcN_findOne tblN j = Inr None
       \<and> fst (svcN_update tblN j v)
           = (if no_keys v then Inl UpdateValuesMissingError else Inr None)
       \<and> fst (svcN_remove tblN j) = Inr ()"
proof -
  have m: "svcM_findOne tblM i = Inl (NotFoundException (not_found_message i))"
    using assms(1) by (simp add: svcM_findOne_def repo_findOneBy_def find_absent)
  have n: "svcN_findOne tblN j = Inr None"
    using assms(2) by (simp add: svcN_findOne_def repo_findOne_def find_absent)
  have n2: "fst (svcN_update tblN j v)
              = (if no_keys v then Inl UpdateValuesMissingError else Inr None)"
    using n by (simp add: svcN_update_def repo_update_absent [OF assms(2)])
  show ?thesis
    using m n n2 by (simp add: svcM_update_def svcM_remove_def svcN_remove_def)
qed

text \<open>
  The theorem at a table with the one note 1, asked for the id 2, the update once
  with a new title and once with no key.
\<close>

theorem absent_id_witness:
  "''2'' \<notin> set (map note_id [\<lparr> note_id = ''1'', title = Some ''a'', content = None \<rparr>])
   \<and> (2::int) \<notin> set (map note_id [\<lparr> note_id = 1::int, title = Some ''a'', content = None \<rparr>])
   \<and> is_NotFound (svcM_findOne [\<lparr> note_id = ''1'', title = Some ''a'', content = None \<rparr>] ''2'')
   \<and> is_NotFound (fst (svcM_update (\<lambda>t. ''9'') [\<lparr> note_id = ''1'', title = Some ''a'', content = None \<rparr>] ''2'' \<lparr> p_id = None, p_title = Some ''b'', p_content = None \<rparr>))
   \<and> is_NotFound (fst (svcM_remove [\<lparr> note_id = ''1'', title = Some ''a'', content = None \<rparr>] ''2''))
   \<and> svcN_findOne [\<lparr> note_id = 1::int, title = Some ''a'', content = None \<rparr>] 2 = Inr None
   \<and> fst (svcN_update [\<lparr> note_id = 1::int, title = Some ''a'', content = None \<rparr>] 2 \<lparr> p_id = None, p_title = Some ''b'', p_content = None \<rparr>) = Inr None
   \<and> fst (svcN_update [\<lparr> note_id = 1::int, title = Some ''a'', content = None \<rparr>] 2 \<lparr> p_id = None, p_title = None, p_content = None \<rparr>) = Inl UpdateValuesMissingError
   \<and> fst (svcN_remove [\<lparr> note_id = 1::int, title = Some ''a'', content = None \<rparr>] 2) = Inr ()"
  using absent_id [of "''2''" "[\<lparr> note_id = ''1'', title = Some ''a'', content = None \<rparr>]" "2::int" "[\<lparr> note_id = 1::int, title = Some ''a'', content = None \<rparr>]" "\<lambda>t. ''9''" "\<lparr> p_id = None, p_title = Some ''b'', p_content = None \<rparr>" "\<lparr> p_id = None, p_title = Some ''b'', p_content = None \<rparr>"]
    absent_id [of "''2''" "[\<lparr> note_id = ''1'', title = Some ''a'', content = None \<rparr>]" "2::int" "[\<lparr> note_id = 1::int, title = Some ''a'', content = None \<rparr>]" "\<lambda>t. ''9''" "\<lparr> p_id = None, p_title = Some ''b'', p_content = None \<rparr>" "\<lparr> p_id = None, p_title = None, p_content = None \<rparr>"]
  by (simp add: no_keys_def)

text \<open>
  The claim as the spec words it, NotFound in both services, fails in the service of
  \<^verbatim>\<open>src/notes\<close>: with the one note 1 in the table, none of its three operations
  rejects with NotFound for the id 2.
\<close>

theorem absent_id_loose_counterexample:
  "(2::int) \<notin> set (map note_id [\<lparr> note_id = 1::int, title = Some ''a'', content = None \<rparr>])
   \<and> \<not> is_NotFound (svcN_findOne [\<lparr> note_id = 1::int, title = Some ''a'', content = None \<rparr>] 2)
   \<and> \<not> is_NotFound (fst (svcN_update [\<lparr> note_id = 1::int, title = Some ''a'', content = None \<rparr>] 2 \<lparr> p_id = None, p_title = Some ''b'', p_content = None \<rparr>))
   \<and> \<not> is_NotFound (fst (svcN_remove [\<lparr> note_id = 1::int, title = Some ''a'', content = None \<rparr>] 2))"
  by (simp add: svcN_findOne_def svcN_update_def svcN_remove_def repo_findOne_def
      repo_update_def no_keys_def id_collision_def)

section \<open>Updating\<close>

text \<open>
  C2, as the code has it. The ids of the table are distinct (the primary key). In the
  service of \<^verbatim>\<open>src/modules/notes\<close>, \<^verbatim>\<open>update\<close> of a persisted note resolves to the
  merge of the payload over it, for every payload. In the service of \<^verbatim>\<open>src/notes\<close>
  it does so for every payload that has a key and leaves the id alone (no \<^verbatim>\<open>id\<close>
  key, or the note's own id): that service reads the note back under the id it was
  asked for, and its repository call rejects a payload with no key.
\<close>

theorem update_merges:
  assumes "distinct (map note_id tblM)" and "m \<in> set tblM"
      and "distinct (map note_id tblN)" and "n \<in> set tblN"
      and "p_id v = None \<or> p_id v = Some (note_id n)" and "\<not> no_keys v"
  shows "(\<exists>m'. fst (svcM_update gen tblM (note_id m) u) = Inr m' \<and> merged m u m')
       \<and> (\<exists>n'. fst (svcN_update tblN (note_id n) v) = Inr (Some n') \<and> merged n v n')"
proof -
  have f: "svcM_findOne tblM (note_id m) = Inr m"
    using assms(1,2) by (simp add: svcM_findOne_def repo_findOneBy_def find_present)
  have "fst (svcM_update gen tblM (note_id m) u) = Inr (assign m u)"
    using save_entity_returns [of gen tblM "assign m u"]
    by (simp add: svcM_update_def f case_prod_beta Let_def)
  moreover have "fst (svcN_update tblN (note_id n) v) = Inr (Some (assign n v))"
    using assms(3,4,5)
    by (simp add: svcN_update_def svcN_findOne_def repo_findOne_def
        repo_update_sets [OF assms(6,5)] find_after_update find_present)
  ultimately show ?thesis
    by (simp add: assign_merged)
qed

text \<open>
  The theorem at a table of two notes, the first updated with a new title: the title
  is the payload's, the content and the id are the note's.
\<close>

theorem update_merges_witness:
  "distinct (map note_id [\<lparr> note_id = ''1'', title = Some ''a'', content = Some ''c'' \<rparr>, \<lparr> note_id = ''2'', title = None, content = Some ''b'' \<rparr>])
   \<and> \<lparr> note_id = ''1'', title = Some ''a'', content = Some ''c'' \<rparr> \<in> set [\<lparr> note_id = ''1'', title = Some ''a'', content = Some ''c'' \<rparr>, \<lparr> note_id = ''2'', title = None, content = Some ''b'' \<rparr>]
   \<and> distinct (map note_id [\<lparr> note_id = 1::int, title = Some ''a'', content = Some ''c'' \<rparr>])
   \<and> \<lparr> note_id = 1::int, title = Some ''a'', content = Some ''c'' \<rparr> \<in> set [\<lparr> note_id = 1::int, title = Some ''a'', content = Some ''c'' \<rparr>]
   \<and> \<not> no_keys \<lparr> p_id = None, p_title = Some ''b'', p_content = None \<rparr>
   \<and> (\<exists>m'. fst (svcM_update (\<lambda>t. ''9'') [\<lparr> note_id = ''1'', title = Some ''a'', content = Some ''c'' \<rparr>, \<lparr> note_id = ''2'', title = None, content = Some ''b'' \<rparr>] ''1'' \<lparr> p_id = None, p_title = Some ''b'', p_content = None \<rparr>) = Inr m'
         \<and> note_id m' = ''1'' \<and> title m' = Some ''b'' \<and> content m' = Some ''c'')
   \<and> (\<exists>n'. fst (svcN_update [\<lparr> note_id = 1::int, title = Some ''a'', content = Some ''c'' \<rparr>] 1 \<lparr> p_id = None, p_title = Some ''b'', p_content = None \<rparr>) = Inr (Some n')
         \<and> note_id n' = 1 \<and> title n' = Some ''b'' \<and> content n' = Some ''c'')"
  using update_merges [of "[\<lparr> note_id = ''1'', title = Some ''a'', content = Some ''c'' \<rparr>, \<lparr> note_id = ''2'', title = None, content = Some ''b'' \<rparr>]" "\<lparr> note_id = ''1'', title = Some ''a'', content = Some ''c'' \<rparr>" "[\<lparr> note_id = 1::int, title = Some ''a'', content = Some ''c'' \<rparr>]" "\<lparr> note_id = 1::int, title = Some ''a'', content = Some ''c'' \<rparr>" "\<lparr> p_id = None, p_title = Some ''b'', p_content = None \<rparr>" "\<lambda>t. ''9''" "\<lparr> p_id = None, p_title = Some ''b'', p_content = None \<rparr>"]
  by (simp add: merged_def no_keys_def)

text \<open>
  The claim as the spec words it, for every payload, fails in the service of
  \<^verbatim>\<open>src/notes\<close>. A payload that carries another id moves the row to that id, and the
  read under the old id resolves to \<^verbatim>\<open>null\<close>, not to a Note. A payload with no key
  is rejected by the repository, and no Note is yielded either.
\<close>

theorem update_merges_id_counterexample:
  "\<lparr> note_id = 1::int, title = Some ''a'', content = Some ''c'' \<rparr> \<in> set [\<lparr> note_id = 1::int, title = Some ''a'', content = Some ''c'' \<rparr>]
   \<and> fst (svcN_update [\<lparr> note_id = 1::int, title = Some ''a'', content = Some ''c'' \<rparr>] 1 \<lparr> p_id = Some 2, p_title = Some ''b'', p_content = None \<rparr>)
       = Inr None
   \<and> fst (svcN_update [\<lparr> note_id = 1::int, title = Some ''a'', content = Some ''c'' \<rparr>] 1 \<lparr> p_id = None, p_title = None, p_content = None \<rparr>) = Inl UpdateValuesMissingError"
  by (simp add: svcN_update_def svcN_findOne_def repo_findOne_def repo_update_def assign_def
      no_keys_def id_collision_def)

text \<open>
  C6, as the code has it. For a persisted note and a payload that carries no \<^verbatim>\<open>id\<close>
  key, or the note's own id, the note \<^verbatim>\<open>update\<close> resolves to has the id of the note,
  and the ids of the table are the ids it had, in both services; in the service of
  \<^verbatim>\<open>src/notes\<close> the payload has a key, as its repository call rejects one with none.
\<close>

theorem update_keeps_id:
  assumes "m \<in> set tblM" and "p_id u = None \<or> p_id u = Some (note_id m)"
      and "n \<in> set tblN" and "p_id v = None \<or> p_id v = Some (note_id n)"
      and "\<not> no_keys v"
  shows "(\<exists>m'. fst (svcM_update gen tblM (note_id m) u) = Inr m' \<and> note_id m' = note_id m)
       \<and> map note_id (snd (svcM_update gen tblM (note_id m) u)) = map note_id tblM
       \<and> (\<exists>n'. fst (svcN_update tblN (note_id n) v) = Inr (Some n') \<and> note_id n' = note_id n)
       \<and> map note_id (snd (svcN_update tblN (note_id n) v)) = map note_id tblN"
proof -
  obtain m0 where f: "svcM_findOne tblM (note_id m) = Inr m0" and i: "note_id m0 = note_id m"
    using find_member [OF assms(1)] by (auto simp: svcM_findOne_def repo_findOneBy_def)
  have k: "note_id (assign m0 u) = note_id m"
    using assms(2) i by (auto simp: assign_def)
  have mem: "note_id m \<in> set (map note_id tblM)"
    using assms(1) by simp
  have s: "repo_save gen tblM (entity_of (assign m0 u))
             = (assign m0 u,
                map (\<lambda>r. if note_id r = note_id m
                          then overwrite r (entity_of (assign m0 u)) else r) tblM)"
    using mem k row_of_entity [of "assign m0 u"] by (simp add: repo_save_def entity_of_def)
  have M: "svcM_update gen tblM (note_id m) u
             = (Inr (assign m0 u),
                map (\<lambda>r. if note_id r = note_id m
                          then overwrite r (entity_of (assign m0 u)) else r) tblM)"
    by (simp add: svcM_update_def f s)
  obtain n0 where g: "find (\<lambda>r. note_id r = note_id n) tblN = Some n0"
      and j: "note_id n0 = note_id n"
    using find_member [OF assms(3)] by auto
  have l: "note_id (assign n0 v) = note_id n"
    using assms(4) j by (auto simp: assign_def)
  have N: "svcN_update tblN (note_id n) v
             = (Inr (Some (assign n0 v)),
                map (\<lambda>r. if note_id r = note_id n then assign r v else r) tblN)"
    using assms(4)
    by (simp add: svcN_update_def svcN_findOne_def repo_findOne_def
        repo_update_sets [OF assms(5,4)] find_after_update g)
  have a: "map note_id (map (\<lambda>r. if note_id r = note_id m
                          then overwrite r (entity_of (assign m0 u)) else r) tblM)
             = map note_id tblM"
    by (rule ids_after_overwrite)
  have b: "map note_id (map (\<lambda>r. if note_id r = note_id n then assign r v else r) tblN)
             = map note_id tblN"
    by (rule ids_after_update [OF assms(4)])
  show ?thesis
    unfolding M N fst_conv snd_conv a b using k l by simp
qed

text \<open>The theorem at a table of two notes, the first updated with a new title.\<close>

theorem update_keeps_id_witness:
  "\<lparr> note_id = ''1'', title = Some ''a'', content = None \<rparr> \<in> set [\<lparr> note_id = ''1'', title = Some ''a'', content = None \<rparr>, \<lparr> note_id = ''2'', title = None, content = Some ''b'' \<rparr>]
   \<and> (p_id \<lparr> p_id = None, p_title = Some ''b'', p_content = None \<rparr> = (None :: string option) \<or> p_id \<lparr> p_id = None, p_title = Some ''b'', p_content = None \<rparr> = Some ''1'')
   \<and> \<lparr> note_id = 1::int, title = Some ''a'', content = None \<rparr> \<in> set [\<lparr> note_id = 1::int, title = Some ''a'', content = None \<rparr>]
   \<and> \<not> no_keys \<lparr> p_id = None, p_title = Some ''b'', p_content = None \<rparr>
   \<and> (\<exists>m'. fst (svcM_update (\<lambda>t. ''9'') [\<lparr> note_id = ''1'', title = Some ''a'', content = None \<rparr>, \<lparr> note_id = ''2'', title = None, content = Some ''b'' \<rparr>] ''1'' \<lparr> p_id = None, p_title = Some ''b'', p_content = None \<rparr>) = Inr m' \<and> note_id m' = ''1'')
   \<and> map note_id (snd (svcM_update (\<lambda>t. ''9'') [\<lparr> note_id = ''1'', title = Some ''a'', content = None \<rparr>, \<lparr> note_id = ''2'', title = None, content = Some ''b'' \<rparr>] ''1'' \<lparr> p_id = None, p_title = Some ''b'', p_content = None \<rparr>)) = [''1'', ''2'']
   \<and> (\<exists>n'. fst (svcN_update [\<lparr> note_id = 1::int, title = Some ''a'', content = None \<rparr>] 1 \<lparr> p_id = None, p_title = Some ''b'', p_content = None \<rparr>) = Inr (Some n') \<and> note_id n' = 1)
   \<and> map note_id (snd (svcN_update [\<lparr> note_id = 1::int, title = Some ''a'', content = None \<rparr>] 1 \<lparr> p_id = None, p_title = Some ''b'', p_content = None \<rparr>)) = [1]"
  using update_keeps_id [of "\<lparr> note_id = ''1'', title = Some ''a'', content = None \<rparr>" "[\<lparr> note_id = ''1'', title = Some ''a'', content = None \<rparr>, \<lparr> note_id = ''2'', title = None, content = Some ''b'' \<rparr>]" "\<lparr> p_id = None, p_title = Some ''b'', p_content = None \<rparr>" "\<lparr> note_id = 1::int, title = Some ''a'', content = None \<rparr>" "[\<lparr> note_id = 1::int, title = Some ''a'', content = None \<rparr>]" "\<lparr> p_id = None, p_title = Some ''b'', p_content = None \<rparr>" "\<lambda>t. ''9''"]
  by (simp add: no_keys_def)

text \<open>
  The claim as the spec words it, whatever the payload holds, fails in both services
  for a payload that carries another id. The service of \<^verbatim>\<open>src/modules/notes\<close>
  resolves to a note with the payload's id; the service of \<^verbatim>\<open>src/notes\<close> leaves the
  row in the table under the payload's id.
\<close>

theorem update_changes_id_counterexample:
  "fst (svcM_update (\<lambda>t. ''9'') [\<lparr> note_id = ''1'', title = Some ''a'', content = None \<rparr>] ''1'' \<lparr> p_id = Some ''7'', p_title = None, p_content = None \<rparr>)
     = Inr \<lparr> note_id = ''7'', title = Some ''a'', content = None \<rparr>
   \<and> snd (svcN_update [\<lparr> note_id = 1::int, title = Some ''a'', content = None \<rparr>] 1 \<lparr> p_id = Some 7, p_title = None, p_content = None \<rparr>)
     = [\<lparr> note_id = 7, title = Some ''a'', content = None \<rparr>]"
  by (simp add: svcM_update_def svcM_findOne_def repo_findOneBy_def assign_def entity_of_def
      repo_save_def row_of_def svcN_update_def repo_update_def no_keys_def id_collision_def
      Let_def)

text \<open>
  C7. When \<^verbatim>\<open>update\<close> or \<^verbatim>\<open>remove\<close> of the service of \<^verbatim>\<open>src/modules/notes\<close> rejects
  with \<^verbatim>\<open>NotFoundException\<close>, the table after the call is the table before it.
\<close>

theorem failed_write_keeps_table:
  "(is_NotFound (fst (svcM_update gen tbl i u)) \<longrightarrow> snd (svcM_update gen tbl i u) = tbl)
   \<and> (is_NotFound (fst (svcM_remove tbl i)) \<longrightarrow> snd (svcM_remove tbl i) = tbl)"
  by (auto simp: svcM_update_def svcM_remove_def split: sum.splits prod.splits)

text \<open>The theorem at a table with the one note 1: both calls reject for the id 2.\<close>

theorem failed_write_keeps_table_witness:
  "is_NotFound (fst (svcM_update (\<lambda>t. ''9'') [\<lparr> note_id = ''1'', title = Some ''a'', content = None \<rparr>] ''2'' \<lparr> p_id = None, p_title = Some ''b'', p_content = None \<rparr>))
   \<and> snd (svcM_update (\<lambda>t. ''9'') [\<lparr> note_id = ''1'', title = Some ''a'', content = None \<rparr>] ''2'' \<lparr> p_id = None, p_title = Some ''b'', p_content = None \<rparr>) = [\<lparr> note_id = ''1'', title = Some ''a'', content = None \<rparr>]
   \<and> is_NotFound (fst (svcM_remove [\<lparr> note_id = ''1'', title = Some ''a'', content = None \<rparr>] ''2''))
   \<and> snd (svcM_remove [\<lparr> note_id = ''1'', title = Some ''a'', content = None \<rparr>] ''2'') = [\<lparr> note_id = ''1'', title = Some ''a'', content = None \<rparr>]"
proof -
  have a: "is_NotFound (fst (svcM_update (\<lambda>t. ''9'') [\<lparr> note_id = ''1'', title = Some ''a'', content = None \<rparr>] ''2'' \<lparr> p_id = None, p_title = Some ''b'', p_content = None \<rparr>))"
    by (simp add: svcM_update_def svcM_findOne_def repo_findOneBy_def)
  have b: "is_NotFound (fst (svcM_remove [\<lparr> note_id = ''1'', title = Some ''a'', content = None \<rparr>] ''2''))"
    by (simp add: svcM_remove_def svcM_findOne_def repo_findOneBy_def)
  show ?thesis
    using a b failed_write_keeps_table [of "\<lambda>t. ''9''" "[\<lparr> note_id = ''1'', title = Some ''a'', content = None \<rparr>]" "''2''" "\<lparr> p_id = None, p_title = Some ''b'', p_content = None \<rparr>"]
    by simp
qed

section \<open>Creating\<close>

text \<open>
  C4. A valid attribute set carries no \<^verbatim>\<open>id\<close> key: the id is the store's to assign,
  and the store generates an id that no row carries. Then \<^verbatim>\<open>create\<close> resolves to the
  attributes plus the generated id, and \<^verbatim>\<open>findOne\<close> of that id, after it, resolves to
  the same note, in both services.
\<close>

theorem create_then_get:
  assumes "p_id a = None" and "gen tbl \<notin> set (map note_id tbl)"
      and "p_id b = None" and "genN tblN \<notin> set (map note_id tblN)"
  shows "fst (svcM_create gen tbl a)
           = Inr \<lparr> note_id = gen tbl, title = p_title a, content = p_content a \<rparr>
       \<and> svcM_findOne (snd (svcM_create gen tbl a)) (gen tbl)
           = Inr \<lparr> note_id = gen tbl, title = p_title a, content = p_content a \<rparr>
       \<and> fst (svcN_create genN tblN b)
           = Inr \<lparr> note_id = genN tblN, title = p_title b, content = p_content b \<rparr>
       \<and> svcN_findOne (snd (svcN_create genN tblN b)) (genN tblN)
           = Inr (Some \<lparr> note_id = genN tblN, title = p_title b, content = p_content b \<rparr>)"
  using assms
  by (simp add: svcM_create_def svcN_create_def repo_create_def repo_save_def row_of_def
      svcM_findOne_def svcN_findOne_def repo_findOneBy_def repo_findOne_def find_appended
      split: option.splits)

text \<open>The theorem at the spec's example, a note titled ``shopping''.\<close>

theorem create_then_get_witness:
  "p_id \<lparr> p_id = None, p_title = Some ''shopping'', p_content = Some ''milk'' \<rparr>
     = (None :: string option)
   \<and> ''2'' \<notin> set (map note_id [\<lparr> note_id = ''1'', title = Some ''a'', content = None \<rparr>])
   \<and> svcM_findOne (snd (svcM_create (\<lambda>t. ''2'') [\<lparr> note_id = ''1'', title = Some ''a'', content = None \<rparr>]
         \<lparr> p_id = None, p_title = Some ''shopping'', p_content = Some ''milk'' \<rparr>)) ''2''
       = Inr \<lparr> note_id = ''2'', title = Some ''shopping'', content = Some ''milk'' \<rparr>
   \<and> svcN_findOne (snd (svcN_create (\<lambda>t. 1::int) []
         \<lparr> p_id = None, p_title = Some ''shopping'', p_content = None \<rparr>)) 1
       = Inr (Some \<lparr> note_id = 1, title = Some ''shopping'', content = None \<rparr>)"
  using create_then_get [of "\<lparr> p_id = None, p_title = Some ''shopping'', p_content = Some ''milk'' \<rparr>"
      "\<lambda>t. ''2''" "[\<lparr> note_id = ''1'', title = Some ''a'', content = None \<rparr>]"
      "\<lparr> p_id = None, p_title = Some ''shopping'', p_content = None \<rparr>" "\<lambda>t. 1::int" "[]"]
  by simp

section \<open>Deleting\<close>

text \<open>
  C5, as the code has it. After \<^verbatim>\<open>remove\<close> of a persisted note's id, \<^verbatim>\<open>findOne\<close> of
  that id finds no note: in the service of \<^verbatim>\<open>src/modules/notes\<close> the \<^verbatim>\<open>remove\<close>
  resolves and the \<^verbatim>\<open>findOne\<close> rejects with \<^verbatim>\<open>NotFoundException\<close>; in the service
  of \<^verbatim>\<open>src/notes\<close> the \<^verbatim>\<open>findOne\<close> resolves to \<^verbatim>\<open>null\<close> (there for every id,
  persisted or not).
\<close>

theorem delete_then_get:
  assumes "m \<in> set tblM"
  shows "fst (svcM_remove tblM (note_id m)) = Inr ()
       \<and> is_NotFound (svcM_findOne (snd (svcM_remove tblM (note_id m))) (note_id m))
       \<and> fst (svcN_remove tblN j) = Inr ()
       \<and> svcN_findOne (snd (svcN_remove tblN j)) j = Inr None"
proof -
  obtain m' where f: "svcM_findOne tblM (note_id m) = Inr m'" and i: "note_id m' = note_id m"
    using find_member [OF assms] by (auto simp: svcM_findOne_def repo_findOneBy_def)
  have r: "svcM_remove tblM (note_id m) = (Inr (), filter (\<lambda>r. note_id r \<noteq> note_id m) tblM)"
    by (simp add: svcM_remove_def f repo_remove_def i)
  have g: "is_NotFound (svcM_findOne (filter (\<lambda>r. note_id r \<noteq> note_id m) tblM) (note_id m))"
    by (simp add: svcM_findOne_def repo_findOneBy_def find_after_delete)
  have n: "svcN_findOne (snd (svcN_remove tblN j)) j = Inr None"
    by (simp add: svcN_remove_def repo_delete_def svcN_findOne_def repo_findOne_def
        find_after_delete)
  show ?thesis
    using r g n by (simp add: svcN_remove_def)
qed

text \<open>The theorem at a table of two notes, the first removed.\<close>

theorem delete_then_get_witness:
  "\<lparr> note_id = ''1'', title = Some ''a'', content = None \<rparr> \<in> set [\<lparr> note_id = ''1'', title = Some ''a'', content = None \<rparr>, \<lparr> note_id = ''2'', title = None, content = Some ''b'' \<rparr>]
   \<and> fst (svcM_remove [\<lparr> note_id = ''1'', title = Some ''a'', content = None \<rparr>, \<lparr> note_id = ''2'', title = None, content = Some ''b'' \<rparr>] ''1'') = Inr ()
   \<and> is_NotFound (svcM_findOne (snd (svcM_remove [\<lparr> note_id = ''1'', title = Some ''a'', content = None \<rparr>, \<lparr> note_id = ''2'', title = None, content = Some ''b'' \<rparr>] ''1'')) ''1'')
   \<and> svcN_findOne (snd (svcN_remove [\<lparr> note_id = 1::int, title = Some ''a'', content = None \<rparr>] 1)) 1 = Inr None"
  using delete_then_get [of "\<lparr> note_id = ''1'', title = Some ''a'', content = None \<rparr>" "[\<lparr> note_id = ''1'', title = Some ''a'', content = None \<rparr>, \<lparr> note_id = ''2'', title = None, content = Some ''b'' \<rparr>]" "[\<lparr> note_id = 1::int, title = Some ''a'', content = None \<rparr>]" 1]
  by simp

text \<open>
  The claim as the spec words it, NotFound in both services, fails in the service of
  \<^verbatim>\<open>src/notes\<close>: after the one note is removed, \<^verbatim>\<open>findOne\<close> of its id does not
  reject.
\<close>

theorem delete_then_get_loose_counterexample:
  "\<lparr> note_id = 1::int, title = Some ''a'', content = None \<rparr> \<in> set [\<lparr> note_id = 1::int, title = Some ''a'', content = None \<rparr>]
   \<and> \<not> is_NotFound (svcN_findOne (snd (svcN_remove [\<lparr> note_id = 1::int, title = Some ''a'', content = None \<rparr>] 1)) 1)"
  by (simp add: svcN_findOne_def svcN_remove_def repo_findOne_def repo_delete_def)

text \<open>
  C10. In the service that deletes without an existence check, \<^verbatim>\<open>remove\<close> resolves
  (to void) for every id, present or not, and a second \<^verbatim>\<open>remove\<close> of the same id
  leaves the table as the first left it.
\<close>

theorem svcN_remove_idempotent:
  "fst (svcN_remove tbl i) = Inr ()
   \<and> snd (svcN_remove (snd (svcN_remove tbl i)) i) = snd (svcN_remove tbl i)"
  by (simp add: svcN_remove_def repo_delete_def)


section \<open>Listing\<close>




text \<open>
  C9. In the service with the title filter, a filter whose title is the empty string
  lists what a filter with no title lists, which is every row of the table: the
  \<^verbatim>\<open>LIKE\<close> condition is added only for a truthy title.
\<close>

theorem findAll_empty_title:
  "svcM_findAll tbl \<lparr> f_title = Some [] \<rparr> = svcM_findAll tbl \<lparr> f_title = None \<rparr>
   \<and> svcM_findAll tbl \<lparr> f_title = None \<rparr> = Inr tbl"
  by (simp add: svcM_findAll_def createQueryBuilder_def getMany_def)


section \<open>Delegation\<close>

text \<open>
  C8. Every controller method resolves to what the one service method it calls
  resolves to, and leaves the table as that call leaves it. The controller of
  \<^verbatim>\<open>src/modules/notes\<close> passes the path id on as it is; the controller of
  \<^verbatim>\<open>src/notes\<close> passes on its coercion to a number and changes nothing else.
\<close>

theorem controllers_delegate:
  "ctlM_create gen tbl b = svcM_create gen tbl b
   \<and> ctlM_findAll tbl f = svcM_findAll tbl f
   \<and> ctlM_findOne tbl s = svcM_findOne tbl s
   \<and> ctlM_update gen tbl s b = svcM_update gen tbl s b
   \<and> ctlM_remove tbl s = svcM_remove tbl s
   \<and> ctlN_findAll tblN = svcN_findAll tblN
   \<and> ctlN_findOne num tblN s = svcN_findOne tblN (num s)
   \<and> ctlN_create genN tblN c = svcN_create genN tblN c
   \<and> ctlN_update num tblN s c = svcN_update tblN (num s) c
   \<and> ctlN_remove num tblN s = svcN_remove tblN (num s)"
  by (simp add: ctlM_create_def ctlM_findAll_def ctlM_findOne_def ctlM_update_def ctlM_remove_def
      ctlN_findAll_def ctlN_findOne_def ctlN_create_def ctlN_update_def ctlN_remove_def)

end
